theory Spec2Isabelle
  imports Complex_Main "HOL-Library.Sublist" "HOL-Library.AList"
begin

section \<open>Python strings\<close>

text \<open>
  A Python \<open>str\<close> is a sequence of Unicode code points: a list of numbers. \<open>py\<close> turns
  a literal of the source into that list.
\<close>

type_synonym codepoint = nat
type_synonym str = "codepoint list"

definition py :: "string \<Rightarrow> str" where
  "py s = map of_char s"

text \<open>
  \<open>str.isspace\<close> on one code point, the test \<open>str.strip\<close> makes at both ends: tab to
  carriage return, the separators \<open>0x1c..0x1f\<close>, the space, \<open>U+0085\<close>, \<open>U+00A0\<close>,
  \<open>U+1680\<close>, \<open>U+2000..U+200A\<close>, \<open>U+2028\<close>, \<open>U+2029\<close>, \<open>U+202F\<close>, \<open>U+205F\<close> and
  \<open>U+3000\<close>.
\<close>

definition isspace :: "codepoint \<Rightarrow> bool" where
  "isspace c =
     ((0x09 \<le> c \<and> c \<le> 0x0D) \<or> (0x1C \<le> c \<and> c \<le> 0x20) \<or> c = 0x85 \<or> c = 0xA0
      \<or> c = 0x1680 \<or> (0x2000 \<le> c \<and> c \<le> 0x200A) \<or> c = 0x2028 \<or> c = 0x2029
      \<or> c = 0x202F \<or> c = 0x205F \<or> c = 0x3000)"

definition strip :: "str \<Rightarrow> str" where
  "strip s = rev (dropWhile isspace (rev (dropWhile isspace s)))"

text \<open>
  \<open>str.lower\<close> follows the case table of Unicode and its rules (one code point can
  become two; a capital sigma depends on its place in the word). It is not written out
  here: the functions that call it take it as the argument \<open>lower\<close>, and the one fact used
  of it is that it maps the empty string to the empty string.
\<close>

type_synonym lowering = "str \<Rightarrow> str"

text \<open>\<open>sep.join(parts)\<close>\<close>

fun join :: "str \<Rightarrow> str list \<Rightarrow> str" where
  "join sep [] = []"
| "join sep [p] = p"
| "join sep (p # q # ps) = p @ sep @ join sep (q # ps)"


section \<open>Entities (models.py)\<close>

text \<open>
  A \<open>date\<close> is (year, month, day); a \<open>datetime\<close> is a reading of the clock.
  Field names carry the table's prefix because record fields share one name space.
\<close>

type_synonym date = "nat \<times> nat \<times> nat"
type_synonym datetime = nat

record Customer =
  cust_id :: str
  cust_name :: str
  cust_tier :: str
  cust_invoices :: int
  cust_status :: str
  cust_created_at :: datetime

record Invoice =
  inv_id :: str
  inv_customer :: str
  inv_amount :: int
  inv_currency :: str
  inv_status :: str
  inv_due :: date
  inv_created :: date
  inv_method :: str

record Subscription =
  sub_id :: str
  sub_plan :: str
  sub_customer :: str
  sub_mrr :: int
  sub_status :: str

record Payment =
  pay_id :: nat
  pay_invoice_id :: str
  pay_amount :: int
  pay_method :: str
  pay_paid_at :: datetime


section \<open>The store and the session\<close>

text \<open>
  The database is one list of rows per table, in insertion order. \<open>session.get\<close> is
  the lookup by primary key; \<open>select(T).all()\<close> is the whole list and
  \<open>select(T).first()\<close> its first row.
\<close>

record store =
  invoice_rows :: "Invoice list"
  customer_rows :: "Customer list"
  subscription_rows :: "Subscription list"
  payment_rows :: "Payment list"

definition empty_store :: store where
  "empty_store = \<lparr>invoice_rows = [], customer_rows = [], subscription_rows = [], payment_rows = []\<rparr>"

definition get_invoice :: "store \<Rightarrow> str \<Rightarrow> Invoice option" where
  "get_invoice s i = find (\<lambda>r. inv_id r = i) (invoice_rows s)"

definition get_customer :: "store \<Rightarrow> str \<Rightarrow> Customer option" where
  "get_customer s i = find (\<lambda>r. cust_id r = i) (customer_rows s)"

definition get_subscription :: "store \<Rightarrow> str \<Rightarrow> Subscription option" where
  "get_subscription s i = find (\<lambda>r. sub_id r = i) (subscription_rows s)"

text \<open>
  A Payment is added with \<open>id = None\<close>; the database assigns the key when the row is
  written: one more than the largest key in the table.
\<close>

definition next_payment_id :: "Payment list \<Rightarrow> nat" where
  "next_payment_id ps = Suc (foldr max (map pay_id ps) 0)"

text \<open>
  What a handler can raise: \<open>HTTPException(status_code, detail)\<close>, the detail being one of
  the fixed messages of the source; the upstream failure of the planner, which is
  \<open>HTTPException(500, "OpenRouter error: <status> <text>")\<close> and is kept with its two
  parts; an \<open>IntegrityError\<close> of the database when a commit writes a primary key that its
  table already holds; and the errors of the interpreter and of \<open>json\<close>.
\<close>

datatype error =
    HTTPException nat string
  | OpenRouterError nat str
  | IntegrityError
  | AttributeError
  | TypeError
  | KeyError
  | IndexError
  | JSONDecodeError

text \<open>
  A handler is a function from the store to its outcome and the store it leaves. When it
  raises, nothing was committed and the store is the one it was given.
\<close>

type_synonym 'a handler = "store \<Rightarrow> (error + 'a) \<times> store"

text \<open>
  The session of one request, for the handler that writes twice. \<open>database\<close> is what is
  committed; \<open>view\<close> is what the session sees, the database with the writes that are not
  committed yet; \<open>commits\<close> lists the states the database was given during the request,
  one for each \<open>session.commit()\<close>, oldest first. When the request ends the view is
  dropped and the database stays.
\<close>

record session =
  database :: store
  view :: store
  commits :: "store list"

definition Session :: "store \<Rightarrow> session" where
  "Session s = \<lparr>database = s, view = s, commits = []\<rparr>"

text \<open>\<open>session.get(Invoice, i)\<close>\<close>

definition session_get_invoice :: "session \<Rightarrow> str \<Rightarrow> Invoice option" where
  "session_get_invoice ss i = find (\<lambda>r. inv_id r = i) (invoice_rows (view ss))"

text \<open>
  An assignment to an attribute of the object fetched under key \<open>i\<close>: the row of that key
  changes in the view.
\<close>

definition assign_invoice :: "str \<Rightarrow> (Invoice \<Rightarrow> Invoice) \<Rightarrow> session \<Rightarrow> session" where
  "assign_invoice i f ss =
     ss\<lparr>view := (view ss)\<lparr>invoice_rows := map (\<lambda>r. if inv_id r = i then f r else r)
                                               (invoice_rows (view ss))\<rparr>\<rparr>"

text \<open>\<open>session.add(payment)\<close> for a new Payment.\<close>

definition add_payment :: "Payment \<Rightarrow> session \<Rightarrow> session" where
  "add_payment p ss = ss\<lparr>view := (view ss)\<lparr>payment_rows := payment_rows (view ss) @ [p]\<rparr>\<rparr>"

text \<open>\<open>session.commit()\<close>\<close>

definition commit :: "session \<Rightarrow> session" where
  "commit ss = ss\<lparr>database := view ss, commits := commits ss @ [view ss]\<rparr>"


section \<open>Billing routes (billing\_route.py)\<close>

definition match :: "lowering \<Rightarrow> str \<Rightarrow> str list \<Rightarrow> bool" where
  "match lower q values = (let ql = lower (strip q) in list_ex (\<lambda>v. sublist ql (lower v)) values)"

text \<open>The query parameter is optional; \<open>not q\<close> holds for \<open>None\<close> and for the empty string.\<close>

definition list_invoices :: "lowering \<Rightarrow> str option \<Rightarrow> store \<Rightarrow> Invoice list" where
  "list_invoices lower q s =
     (let rows = invoice_rows s in
      case q of
        None \<Rightarrow> rows
      | Some t \<Rightarrow>
          if t = [] then rows
          else filter (\<lambda>r. match lower t [inv_id r, inv_customer r, inv_status r, inv_method r]) rows)"

definition list_customers :: "lowering \<Rightarrow> str option \<Rightarrow> store \<Rightarrow> Customer list" where
  "list_customers lower q s =
     (let rows = customer_rows s in
      case q of
        None \<Rightarrow> rows
      | Some t \<Rightarrow>
          if t = [] then rows
          else filter (\<lambda>r. match lower t [cust_id r, cust_name r, cust_tier r, cust_status r]) rows)"

definition list_subscriptions :: "lowering \<Rightarrow> str option \<Rightarrow> store \<Rightarrow> Subscription list" where
  "list_subscriptions lower q s =
     (let rows = subscription_rows s in
      case q of
        None \<Rightarrow> rows
      | Some t \<Rightarrow>
          if t = [] then rows
          else filter (\<lambda>r. match lower t [sub_id r, sub_plan r, sub_customer r, sub_status r]) rows)"

definition create_invoice :: "Invoice \<Rightarrow> Invoice handler" where
  "create_invoice iv s =
     (case get_invoice s (inv_id iv) of
        Some exists \<Rightarrow> (Inl (HTTPException 409 ''Invoice id already exists''), s)
      | None \<Rightarrow> (Inr iv, s\<lparr>invoice_rows := invoice_rows s @ [iv]\<rparr>))"

definition create_customer :: "Customer \<Rightarrow> Customer handler" where
  "create_customer c s =
     (case get_customer s (cust_id c) of
        Some exists \<Rightarrow> (Inl (HTTPException 409 ''Customer id already exists''), s)
      | None \<Rightarrow> (Inr c, s\<lparr>customer_rows := customer_rows s @ [c]\<rparr>))"

record pay_ack =
  ack_ok :: bool
  ack_invoice_id :: str

text \<open>
  \<open>pay_invoice\<close>, statement by statement on the session: the fetch, the two assignments
  to the fetched object, the new Payment (its amount read from the object, its key given
  by the database, its time by the clock reading \<open>now\<close>), the two \<open>add\<close> (the second, of
  an object the session already holds, changes nothing) and the one commit.
\<close>

definition pay_invoice_session ::
  "str \<Rightarrow> str \<Rightarrow> datetime \<Rightarrow> session \<Rightarrow> (error + pay_ack) \<times> session" where
  "pay_invoice_session invoice_id m now ss =
     (case session_get_invoice ss invoice_id of
        None \<Rightarrow> (Inl (HTTPException 404 ''Invoice not found''), ss)
      | Some iv \<Rightarrow>
          (let ss1 = assign_invoice invoice_id (\<lambda>r. r\<lparr>inv_status := py ''paid''\<rparr>) ss;
               ss2 = assign_invoice invoice_id (\<lambda>r. r\<lparr>inv_method := m\<rparr>) ss1;
               payment = \<lparr>pay_id = next_payment_id (payment_rows (view ss2)),
                          pay_invoice_id = invoice_id, pay_amount = inv_amount iv,
                          pay_method = m, pay_paid_at = now\<rparr>;
               ss3 = add_payment payment ss2;
               ss4 = commit ss3
           in (Inr \<lparr>ack_ok = True, ack_invoice_id = invoice_id\<rparr>, ss4)))"

text \<open>The handler: a session on the store, and the database it leaves.\<close>

definition pay_invoice :: "str \<Rightarrow> str \<Rightarrow> datetime \<Rightarrow> pay_ack handler" where
  "pay_invoice invoice_id m now s =
     (case pay_invoice_session invoice_id m now (Session s) of (res, ss) \<Rightarrow> (res, database ss))"

text \<open>The route's default: \<open>method: str = "UPI"\<close>.\<close>

definition pay_invoice_route :: "str \<Rightarrow> str option \<Rightarrow> datetime \<Rightarrow> pay_ack handler" where
  "pay_invoice_route invoice_id m now s =
     pay_invoice invoice_id (case m of None \<Rightarrow> py ''UPI'' | Some x \<Rightarrow> x) now s"

text \<open>What the two assignments of \<open>pay_invoice\<close> make of a row.\<close>

definition mark_paid :: "str \<Rightarrow> Invoice \<Rightarrow> Invoice" where
  "mark_paid m iv = iv\<lparr>inv_status := py ''paid'', inv_method := m\<rparr>"

record seed_ack =
  seed_ok :: bool
  seeded :: bool

definition seed_invoices :: "Invoice list" where
  "seed_invoices =
    [\<lparr>inv_id = py ''INV-10428'', inv_customer = py ''Apex Retail Pvt Ltd'', inv_amount = 48900,
      inv_currency = py ''INR'', inv_status = py ''paid'', inv_due = (2025, 12, 2),
      inv_created = (2025, 11, 25), inv_method = py ''UPI''\<rparr>,
     \<lparr>inv_id = py ''INV-10429'', inv_customer = py ''BlueSky Logistics'', inv_amount = 125000,
      inv_currency = py ''INR'', inv_status = py ''overdue'', inv_due = (2025, 12, 8),
      inv_created = (2025, 11, 28), inv_method = py ''Card''\<rparr>,
     \<lparr>inv_id = py ''INV-10430'', inv_customer = py ''Nimbus Clinics'', inv_amount = 76000,
      inv_currency = py ''INR'', inv_status = py ''sent'', inv_due = (2025, 12, 20),
      inv_created = (2025, 12, 1), inv_method = py ''NetBanking''\<rparr>]"

definition seed_subscriptions :: "Subscription list" where
  "seed_subscriptions =
    [\<lparr>sub_id = py ''SUB-2201'', sub_plan = py ''Growth'', sub_customer = py ''Nimbus Clinics'',
      sub_mrr = 6999, sub_status = py ''active''\<rparr>,
     \<lparr>sub_id = py ''SUB-2202'', sub_plan = py ''Starter'', sub_customer = py ''Orchid Education'',
      sub_mrr = 1999, sub_status = py ''active''\<rparr>]"

text \<open>The seeded customers take \<open>created_at\<close> from the clock (\<open>default_factory\<close>).\<close>

definition seed_customers :: "datetime \<Rightarrow> Customer list" where
  "seed_customers now =
    [\<lparr>cust_id = py ''CUST-901'', cust_name = py ''Apex Retail Pvt Ltd'',
      cust_tier = py ''Mid-market'', cust_invoices = 12, cust_status = py ''healthy'',
      cust_created_at = now\<rparr>,
     \<lparr>cust_id = py ''CUST-902'', cust_name = py ''BlueSky Logistics'',
      cust_tier = py ''Enterprise'', cust_invoices = 21, cust_status = py ''at_risk'',
      cust_created_at = now\<rparr>]"

text \<open>
  \<open>seed_if_empty\<close> looks at the Invoice table only. The commit writes seven rows; it
  raises when a Subscription or Customer key is already in its table (the Invoice table is
  empty on this path), and then nothing is written.
\<close>

definition seed_if_empty :: "datetime \<Rightarrow> seed_ack handler" where
  "seed_if_empty now s =
     (case invoice_rows s of
        any_invoice # _ \<Rightarrow> (Inr \<lparr>seed_ok = True, seeded = False\<rparr>, s)
      | [] \<Rightarrow>
          if list_ex (\<lambda>r. get_subscription s (sub_id r) \<noteq> None) seed_subscriptions
             \<or> list_ex (\<lambda>r. get_customer s (cust_id r) \<noteq> None) (seed_customers now)
          then (Inl IntegrityError, s)
          else (Inr \<lparr>seed_ok = True, seeded = True\<rparr>,
                s\<lparr>invoice_rows := invoice_rows s @ seed_invoices,
                  subscription_rows := subscription_rows s @ seed_subscriptions,
                  customer_rows := customer_rows s @ seed_customers now\<rparr>))"

text \<open>
  The requests that reach the store, and a run of them. The list routes read and leave the
  store as it is; a request that raises leaves it as it is too.
\<close>

datatype request =
    ListInvoices "str option"
  | CreateInvoice Invoice
  | PayInvoice str str datetime
  | ListCustomers "str option"
  | CreateCustomer Customer
  | ListSubscriptions "str option"
  | SeedIfEmpty datetime

fun step :: "request \<Rightarrow> store \<Rightarrow> store" where
  "step (ListInvoices q) s = s"
| "step (CreateInvoice iv) s = snd (create_invoice iv s)"
| "step (PayInvoice i m now) s = snd (pay_invoice i m now s)"
| "step (ListCustomers q) s = s"
| "step (CreateCustomer c) s = snd (create_customer c s)"
| "step (ListSubscriptions q) s = s"
| "step (SeedIfEmpty now) s = snd (seed_if_empty now s)"

fun run :: "request list \<Rightarrow> store \<Rightarrow> store" where
  "run [] s = s"
| "run (q # qs) s = run qs (step q s)"

text \<open>Each table holds a key once.\<close>

definition keys_distinct :: "store \<Rightarrow> bool" where
  "keys_distinct s =
     (distinct (map inv_id (invoice_rows s)) \<and> distinct (map cust_id (customer_rows s))
      \<and> distinct (map sub_id (subscription_rows s)) \<and> distinct (map pay_id (payment_rows s)))"

text \<open>A run holds a pay request for the row's identifier, with the method the row carries.\<close>

definition paid_by_pay :: "request list \<Rightarrow> Invoice \<Rightarrow> bool" where
  "paid_by_pay reqs r =
     list_ex (\<lambda>q. case q of PayInvoice i m now \<Rightarrow> i = inv_id r \<and> m = inv_method r | _ \<Rightarrow> False) reqs"

text \<open>
  The filter read without the lowering of the field values: the lowered, trimmed query is
  a substring of one of the values as they are stored.
\<close>

definition match_as_stored :: "lowering \<Rightarrow> str \<Rightarrow> str list \<Rightarrow> bool" where
  "match_as_stored lower q values = (let ql = lower (strip q) in list_ex (\<lambda>v. sublist ql v) values)"


section \<open>The assistant (main.py)\<close>

definition ACTIONS :: "str list" where
  "ACTIONS =
    [py ''click'', py ''type'', py ''none'',
     py ''create_invoice'', py ''delete_invoice'', py ''update_invoice'', py ''filter_invoices'',
     py ''create_customer'', py ''delete_customer'', py ''update_customer'',
     py ''create_subscription'', py ''delete_subscription'', py ''update_subscription'']"

definition TARGETS :: "str list" where
  "TARGETS =
    [py ''nav.dashboard'', py ''nav.invoices'', py ''nav.subscriptions'', py ''nav.customers'',
     py ''nav.reports'', py ''nav.settings'',
     py ''field.search'', py ''action.createInvoice'', py ''action.collectPayment'']"

text \<open>
  What \<open>json.loads\<close> returns. A \<open>dict\<close> is an association list with distinct keys in
  insertion order, read with \<open>map_of\<close> and written with \<open>AList.update\<close> (which
  replaces the value in place, or appends the key).
\<close>

datatype json =
    JNull
  | JBool bool
  | JInt int
  | JFloat rat
  | JString str
  | JArray "json list"
  | JObject "(str \<times> json) list"

text \<open>Python's truth value of a parsed JSON value.\<close>

fun truthy :: "json \<Rightarrow> bool" where
  "truthy JNull = False"
| "truthy (JBool b) = b"
| "truthy (JInt n) = (n \<noteq> 0)"
| "truthy (JFloat x) = (x \<noteq> 0)"
| "truthy (JString t) = (t \<noteq> [])"
| "truthy (JArray xs) = (xs \<noteq> [])"
| "truthy (JObject kv) = (kv \<noteq> [])"

text \<open>
  \<open>x[key]\<close> with a string key and \<open>x[0]\<close>, on a parsed JSON value: a dict without the
  key raises \<open>KeyError\<close> (its keys are strings, so \<open>0\<close> is never one), an empty list or
  string raises \<open>IndexError\<close> on \<open>[0]\<close>, and a value that cannot be indexed that way
  raises \<open>TypeError\<close>.
\<close>

definition subscript :: "json \<Rightarrow> str \<Rightarrow> error + json" where
  "subscript x k =
     (case x of
        JObject kv \<Rightarrow> (case map_of kv k of None \<Rightarrow> Inl KeyError | Some v \<Rightarrow> Inr v)
      | _ \<Rightarrow> Inl TypeError)"

definition subscript0 :: "json \<Rightarrow> error + json" where
  "subscript0 x =
     (case x of
        JArray xs \<Rightarrow> (case xs of [] \<Rightarrow> Inl IndexError | y # _ \<Rightarrow> Inr y)
      | JString t \<Rightarrow> (case t of [] \<Rightarrow> Inl IndexError | c # _ \<Rightarrow> Inr (JString [c]))
      | JObject kv \<Rightarrow> Inl KeyError
      | _ \<Rightarrow> Inl TypeError)"

record Command =
  action :: str
  target :: "str option"
  args :: "(str \<times> json) list"
  reply :: str

text \<open>
  \<open>Command(**obj)\<close>: each field is taken from the dict or defaulted; a value of the wrong
  type is a \<open>ValidationError\<close> (\<open>None\<close> here); keys that are no field are ignored.
\<close>

definition str_field :: "json option \<Rightarrow> str \<Rightarrow> str option" where
  "str_field v d = (case v of None \<Rightarrow> Some d | Some (JString t) \<Rightarrow> Some t | Some _ \<Rightarrow> None)"

definition optional_str_field :: "json option \<Rightarrow> str option option" where
  "optional_str_field v =
     (case v of None \<Rightarrow> Some None | Some JNull \<Rightarrow> Some None
      | Some (JString t) \<Rightarrow> Some (Some t) | Some _ \<Rightarrow> None)"

definition dict_field :: "json option \<Rightarrow> (str \<times> json) list option" where
  "dict_field v = (case v of None \<Rightarrow> Some [] | Some (JObject kv) \<Rightarrow> Some kv | Some _ \<Rightarrow> None)"

definition Command_init :: "(str \<times> json) list \<Rightarrow> Command option" where
  "Command_init obj =
     (case str_field (map_of obj (py ''action'')) (py ''none'') of
        None \<Rightarrow> None
      | Some a \<Rightarrow>
         (case optional_str_field (map_of obj (py ''target'')) of
            None \<Rightarrow> None
          | Some t \<Rightarrow>
             (case dict_field (map_of obj (py ''args'')) of
                None \<Rightarrow> None
              | Some kv \<Rightarrow>
                 (case str_field (map_of obj (py ''reply'')) (py ''ok'') of
                    None \<Rightarrow> None
                  | Some r \<Rightarrow> Some \<lparr>action = a, target = t, args = kv, reply = r\<rparr>))))"

text \<open>\<open>Command(action="none", reply=r)\<close>\<close>

definition fallback :: "str \<Rightarrow> Command" where
  "fallback r = \<lparr>action = py ''none'', target = None, args = [], reply = r\<rparr>"

text \<open>A command of that shape: action \<open>none\<close>, no target, no arguments, some reply.\<close>

definition is_fallback :: "Command \<Rightarrow> bool" where
  "is_fallback c = (action c = py ''none'' \<and> target c = None \<and> args c = [] \<and> reply c \<noteq> [])"

text \<open>
  \<open>(cmd.args.get("text") or "").strip()\<close>: a missing or falsy value gives the empty
  string; a truthy value that is no string has no \<open>strip\<close>.
\<close>

definition text_arg :: "(str \<times> json) list \<Rightarrow> error + str" where
  "text_arg kv =
     (case map_of kv (py ''text'') of
        None \<Rightarrow> Inr (strip [])
      | Some v \<Rightarrow>
          if \<not> truthy v then Inr (strip [])
          else (case v of JString t \<Rightarrow> Inr (strip t) | _ \<Rightarrow> Inl AttributeError))"

text \<open>\<open>plan_command\<close> from \<open>Command(**obj)\<close> on: coercion and the guardrails.\<close>

definition guard_command :: "(str \<times> json) list \<Rightarrow> error + Command" where
  "guard_command obj =
     (case Command_init obj of
        None \<Rightarrow> Inr (fallback (py ''I got an invalid command format. Try again.''))
      | Some cmd \<Rightarrow>
          if action cmd \<notin> set ACTIONS then Inr (fallback (py ''That action is not supported.''))
          else if (case target cmd of None \<Rightarrow> False | Some t \<Rightarrow> t \<notin> set TARGETS)
            then Inr (fallback (py ''That UI target is not supported.''))
          else if action cmd = py ''type'' then
            (case text_arg (args cmd) of
               Inl e \<Rightarrow> Inl e
             | Inr t \<Rightarrow>
                 if target cmd \<noteq> Some (py ''field.search'') \<or> t = []
                 then Inr (fallback (py ''Tell me what to search for.''))
                 else Inr (cmd\<lparr>args := AList.update (py ''text'') (JString t) (args cmd)\<rparr>))
          else Inr cmd)"

text \<open>
  \<open>re.search(r"\{[\s\S]*\}", text)\<close>: the span from the first opening brace to the last
  closing brace after it, when there is one.
\<close>

definition brace_span :: "str \<Rightarrow> str option" where
  "brace_span t =
     (let from_open = dropWhile (\<lambda>c. c \<noteq> 0x7B) t;
          span = rev (dropWhile (\<lambda>c. c \<noteq> 0x7D) (rev from_open))
      in if span = [] then None else Some span)"

text \<open>
  What the handlers are given from outside: the configured key, the remote model (user
  message in, response out), \<open>json.loads\<close> on a string (\<open>None\<close> when it raises) and the
  speech model (file in, segment texts out).
\<close>

record http_response =
  status_code :: nat
  resp_text :: str

type_synonym bytes = "nat list"

record env =
  OPENROUTER_API_KEY :: str
  chat_completion :: "str \<Rightarrow> http_response"
  json_loads :: "str \<Rightarrow> json option"
  whisper_segments :: "bytes \<Rightarrow> str list"

text \<open>
  \<open>r.json()["choices"][0]["message"]["content"]\<close>: the body is parsed and indexed four
  times; each step can raise.
\<close>

definition response_content :: "env \<Rightarrow> http_response \<Rightarrow> error + json" where
  "response_content e r =
     (case json_loads e (resp_text r) of
        None \<Rightarrow> Inl JSONDecodeError
      | Some body \<Rightarrow>
         (case subscript body (py ''choices'') of
            Inl x \<Rightarrow> Inl x
          | Inr choices \<Rightarrow>
             (case subscript0 choices of
                Inl x \<Rightarrow> Inl x
              | Inr choice \<Rightarrow>
                 (case subscript choice (py ''message'') of
                    Inl x \<Rightarrow> Inl x
                  | Inr message \<Rightarrow> subscript message (py ''content'')))))"

text \<open>
  \<open>_extract_json\<close> on whatever value \<open>content\<close> is. Both calls of \<open>json.loads\<close> are
  inside a \<open>try\<close> that swallows every exception, and \<open>json.loads\<close> of a value that is no
  string raises; \<open>re.search\<close> is outside the \<open>try\<close>, and raises \<open>TypeError\<close> on a value
  that is no string.
\<close>

definition try_loads :: "env \<Rightarrow> json \<Rightarrow> json option" where
  "try_loads e x = (case x of JString t \<Rightarrow> json_loads e t | _ \<Rightarrow> None)"

definition extract_json :: "env \<Rightarrow> json \<Rightarrow> error + (str \<times> json) list option" where
  "extract_json e x =
     (case try_loads e x of
        Some (JObject kv) \<Rightarrow> Inr (Some kv)
      | _ \<Rightarrow>
         (case x of
            JString t \<Rightarrow>
              (case brace_span t of
                 None \<Rightarrow> Inr None
               | Some m \<Rightarrow>
                  (case json_loads e m of Some (JObject kv) \<Rightarrow> Inr (Some kv) | _ \<Rightarrow> Inr None))
          | _ \<Rightarrow> Inl TypeError))"

definition could_not_understand :: str where
  "could_not_understand =
     py (''I could not understand. Try: '' @ [CHR 0x22] @ ''open invoices'' @ [CHR 0x22] @ '', ''
       @ [CHR 0x22] @ ''search apex'' @ [CHR 0x22] @ ''.'')"

text \<open>\<open>plan_command\<close> from \<open>content\<close> on; \<open>not obj\<close> holds for \<open>None\<close> and for \<open>{}\<close>.\<close>

definition plan_reply :: "env \<Rightarrow> json \<Rightarrow> error + Command" where
  "plan_reply e x =
     (case extract_json e x of
        Inl err \<Rightarrow> Inl err
      | Inr found \<Rightarrow>
         (case found of
            None \<Rightarrow> Inr (fallback could_not_understand)
          | Some obj \<Rightarrow>
              if obj = [] then Inr (fallback could_not_understand)
              else guard_command obj))"

text \<open>
  The outbound calls are the effect of the planner: the state threaded through is the log
  of the messages sent to the remote model.
\<close>

type_synonym outbound = "str list"

definition plan_command :: "env \<Rightarrow> str \<Rightarrow> str \<Rightarrow> outbound \<Rightarrow> (error + Command) \<times> outbound" where
  "plan_command e user_text active_tab sent =
     (if OPENROUTER_API_KEY e = [] then
        (Inl (HTTPException 500 ''OPENROUTER_API_KEY is not set''), sent)
      else
        (let msg = py ''Active tab: '' @ active_tab @ [0x0A] @ py ''User: '' @ user_text;
             r = chat_completion e msg
         in if status_code r \<ge> 400
            then (Inl (OpenRouterError (status_code r) (resp_text r)), sent @ [msg])
            else (case response_content e r of
                    Inl err \<Rightarrow> (Inl err, sent @ [msg])
                  | Inr x \<Rightarrow> (plan_reply e x, sent @ [msg]))))"

definition transcribe_audio :: "env \<Rightarrow> bytes \<Rightarrow> str" where
  "transcribe_audio e file =
     (let parts = map strip (filter (\<lambda>t. t \<noteq> []) (whisper_segments e file))
      in strip (join (py '' '') (filter (\<lambda>p. p \<noteq> []) parts)))"

record assistant_reply =
  transcript :: str
  command :: Command

definition assistant_text :: "env \<Rightarrow> str \<Rightarrow> str \<Rightarrow> outbound \<Rightarrow> (error + assistant_reply) \<times> outbound" where
  "assistant_text e txt active_tab sent =
     (case plan_command e txt active_tab sent of
        (Inl err, sent') \<Rightarrow> (Inl err, sent')
      | (Inr cmd, sent') \<Rightarrow> (Inr \<lparr>transcript = txt, command = cmd\<rparr>, sent'))"

definition assistant_voice :: "env \<Rightarrow> bytes \<Rightarrow> str \<Rightarrow> outbound \<Rightarrow> (error + assistant_reply) \<times> outbound" where
  "assistant_voice e file active_tab sent =
     (let t = transcribe_audio e file in
      if t = [] then
        (Inr \<lparr>transcript = [], command = fallback (py ''I could not hear anything. Try again.'')\<rparr>, sent)
      else
        (case plan_command e t active_tab sent of
           (Inl err, sent') \<Rightarrow> (Inl err, sent')
         | (Inr cmd, sent') \<Rightarrow> (Inr \<lparr>transcript = t, command = cmd\<rparr>, sent')))"


section \<open>Sample data\<close>

text \<open>
  A lowering for the samples: on code points below 256 it is \<open>str.lower\<close> (the capitals
  \<open>A..Z\<close> and \<open>U+00C0..U+00DE\<close> without the multiplication sign move up by 32); the
  samples hold no other code point.
\<close>

definition lower_latin1 :: lowering where
  "lower_latin1 s =
     map (\<lambda>c. if (0x41 \<le> c \<and> c \<le> 0x5A) \<or> (0xC0 \<le> c \<and> c \<le> 0xDE \<and> c \<noteq> 0xD7) then c + 32 else c) s"

text \<open>The store after seeding an empty database at clock reading 0.\<close>

definition demo_store :: store where
  "demo_store = \<lparr>invoice_rows = seed_invoices, customer_rows = seed_customers 0,
                  subscription_rows = seed_subscriptions, payment_rows = []\<rparr>"

text \<open>A store with one customer and nothing else.\<close>

definition customer_only_store :: store where
  "customer_only_store =
     \<lparr>invoice_rows = [],
      customer_rows = [\<lparr>cust_id = py ''CUST-1'', cust_name = py ''Acme Retail'',
                        cust_tier = py ''SMB'', cust_invoices = 0, cust_status = py ''new'',
                        cust_created_at = 0\<rparr>],
      subscription_rows = [], payment_rows = []\<rparr>"

text \<open>A store whose one invoice is for a customer with an accented capital: \<open>U+00C9\<close>cole Nord.\<close>

definition ecole_store :: store where
  "ecole_store =
     \<lparr>invoice_rows = [\<lparr>inv_id = py ''INV-1'', inv_customer = 0xC9 # py ''cole Nord'',
                       inv_amount = 100, inv_currency = py ''EUR'', inv_status = py ''sent'',
                       inv_due = (2026, 1, 31), inv_created = (2026, 1, 1),
                       inv_method = py ''Card''\<rparr>],
      customer_rows = [], subscription_rows = [], payment_rows = []\<rparr>"

text \<open>A run that seeds an empty store and then pays the third seeded invoice by card.\<close>

definition demo_run :: "request list" where
  "demo_run = [SeedIfEmpty 0, PayInvoice (py ''INV-10430'') (py ''Card'') 3]"

text \<open>
  A reply of the model that is a JSON object whose \<open>text\<close> argument is the number 5:
  \<open>{"action":"type","target":"field.search","args":{"text":5}}\<close>, and the object
  \<open>json.loads\<close> makes of it.
\<close>

definition dq :: string where
  "dq = [CHR 0x22]"

definition type_number_reply :: str where
  "type_number_reply =
     py (''{'' @ dq @ ''action'' @ dq @ '':'' @ dq @ ''type'' @ dq @ '',''
       @ dq @ ''target'' @ dq @ '':'' @ dq @ ''field.search'' @ dq @ '',''
       @ dq @ ''args'' @ dq @ '':{'' @ dq @ ''text'' @ dq @ '':5}}'')"

definition type_number_obj :: "(str \<times> json) list" where
  "type_number_obj =
     [(py ''action'', JString (py ''type'')), (py ''target'', JString (py ''field.search'')),
      (py ''args'', JObject [(py ''text'', JInt 5)])]"

definition prose_reply :: str where
  "prose_reply = py ''Sure {I think} you want invoices''"

text \<open>
  The body of a response of the remote model around a \<open>content\<close>:
  \<open>{"choices":[{"message":{"content":...}}]}\<close>, as text (the content already written as
  JSON) and as the value \<open>json.loads\<close> makes of it. \<open>json_string\<close> writes a string as
  JSON, escaping the quote and the backslash.
\<close>

definition json_string :: "str \<Rightarrow> str" where
  "json_string t = [0x22] @ concat (map (\<lambda>c. if c = 0x22 \<or> c = 0x5C then [0x5C, c] else [c]) t) @ [0x22]"

definition body_text :: "str \<Rightarrow> str" where
  "body_text c =
     py (''{'' @ dq @ ''choices'' @ dq @ '':[{'' @ dq @ ''message'' @ dq @ '':{'' @ dq @ ''content''
           @ dq @ '':'') @ c @ py ''}}]}''"

definition body_value :: "json \<Rightarrow> json" where
  "body_value c =
     JObject [(py ''choices'', JArray [JObject [(py ''message'', JObject [(py ''content'', c)])]])]"

text \<open>\<open>json.loads\<close> on the strings of the samples; every other string here is no JSON.\<close>

definition sample_loads :: "str \<Rightarrow> json option" where
  "sample_loads t =
     (if t = type_number_reply then Some (JObject type_number_obj)
      else if t = body_text (json_string type_number_reply) then Some (body_value (JString type_number_reply))
      else if t = body_text (json_string prose_reply) then Some (body_value (JString prose_reply))
      else if t = body_text (py ''null'') then Some (body_value JNull)
      else None)"

text \<open>
  Sample surroundings. \<open>typing_env\<close>: a configured key and a model that answers with the
  reply above. \<open>prose_env\<close>: a model that answers in prose with a brace span that is no
  JSON. \<open>null_env\<close>: a model whose response carries \<open>"content": null\<close>. \<open>silent_env\<close>:
  no key configured and a speech model that hears only blanks, a no-break space among them.
\<close>

definition typing_env :: env where
  "typing_env =
     \<lparr>OPENROUTER_API_KEY = py ''sk-or-demo'',
      chat_completion = (\<lambda>msg. \<lparr>status_code = 200,
                                  resp_text = body_text (json_string type_number_reply)\<rparr>),
      json_loads = sample_loads,
      whisper_segments = (\<lambda>file. [py ''search five''])\<rparr>"

definition prose_env :: env where
  "prose_env =
     \<lparr>OPENROUTER_API_KEY = py ''sk-or-demo'',
      chat_completion = (\<lambda>msg. \<lparr>status_code = 200,
                                  resp_text = body_text (json_string prose_reply)\<rparr>),
      json_loads = sample_loads,
      whisper_segments = (\<lambda>file. [py ''open invoices''])\<rparr>"

definition null_env :: env where
  "null_env =
     \<lparr>OPENROUTER_API_KEY = py ''sk-or-demo'',
      chat_completion = (\<lambda>msg. \<lparr>status_code = 200, resp_text = body_text (py ''null'')\<rparr>),
      json_loads = sample_loads,
      whisper_segments = (\<lambda>file. [py ''open invoices''])\<rparr>"

definition silent_env :: env where
  "silent_env =
     \<lparr>OPENROUTER_API_KEY = [],
      chat_completion = (\<lambda>msg. \<lparr>status_code = 503, resp_text = py ''unavailable''\<rparr>),
      json_loads = sample_loads,
      whisper_segments = (\<lambda>file. [py '' '', [], [0xA0, 0x20]])\<rparr>"

section \<open>Literals\<close>

lemma py_Nil [simp]: "py [] = []"
  by (simp add: py_def)

lemma py_Cons [simp]: "py (c # cs) = of_char c # py cs"
  by (simp add: py_def)


section \<open>Lookups by key\<close>

lemma find_key_None: "find (\<lambda>r. k r = i) rows = None \<longleftrightarrow> (\<forall>r \<in> set rows. k r \<noteq> i)"
  by (induction rows) auto

lemma find_key_Some: "find (\<lambda>r. k r = i) rows = Some x \<Longrightarrow> x \<in> set rows \<and> k x = i"
  by (induction rows) (auto split: if_splits)

lemma find_mark_paid:
  "find (\<lambda>r. inv_id r = I) (map (\<lambda>r. if inv_id r = I then mark_paid M r else r) rows)
     = map_option (mark_paid M) (find (\<lambda>r. inv_id r = I) rows)"
  by (induction rows) (auto simp: mark_paid_def)


section \<open>The session of pay\_invoice\<close>

text \<open>
  What the session of \<open>pay_invoice\<close> comes to on the store: the row of the key marked
  paid, one Payment appended.
\<close>

lemma pay_invoice_unfold:
  "pay_invoice invoice_id m now s =
     (case get_invoice s invoice_id of
        None \<Rightarrow> (Inl (HTTPException 404 ''Invoice not found''), s)
      | Some iv \<Rightarrow>
          (Inr \<lparr>ack_ok = True, ack_invoice_id = invoice_id\<rparr>,
           s\<lparr>invoice_rows := map (\<lambda>r. if inv_id r = invoice_id then mark_paid m r else r)
                                  (invoice_rows s),
             payment_rows := payment_rows s @
               [\<lparr>pay_id = next_payment_id (payment_rows s), pay_invoice_id = invoice_id,
                 pay_amount = inv_amount iv, pay_method = m, pay_paid_at = now\<rparr>]\<rparr>))"
  by (simp add: pay_invoice_def pay_invoice_session_def Session_def session_get_invoice_def
        get_invoice_def assign_invoice_def add_payment_def commit_def Let_def mark_paid_def
        split: option.splits)

text \<open>The session commits once when the invoice is there, and never when it is not.\<close>

lemma pay_invoice_session_commits:
  "commits (snd (pay_invoice_session invoice_id m now (Session s))) =
     (case get_invoice s invoice_id of
        None \<Rightarrow> []
      | Some iv \<Rightarrow> [snd (pay_invoice invoice_id m now s)])"
  by (simp add: pay_invoice_def pay_invoice_session_def Session_def session_get_invoice_def
        get_invoice_def assign_invoice_def add_payment_def commit_def Let_def
        split: option.splits)

lemma pay_invoice_session_database:
  "database (snd (pay_invoice_session invoice_id m now (Session s))) =
     snd (pay_invoice invoice_id m now s)"
  by (simp add: pay_invoice_def split: prod.splits)


section \<open>Primary keys\<close>

text \<open>
  Every request keeps the keys of each table distinct, so every store reached from the
  empty one has them distinct: the lookup by key finds the one row there is, and the update
  of \<open>pay_invoice\<close> changes that row only.
\<close>

lemma pay_id_below_next: "p \<in> set ps \<Longrightarrow> pay_id p < next_payment_id ps"
  by (induction ps) (auto simp: next_payment_id_def)

lemma next_payment_id_fresh: "next_payment_id ps \<notin> pay_id ` set ps"
  using pay_id_below_next by fastforce

lemma map_inv_id_mark_paid:
  "map (inv_id \<circ> (\<lambda>r. if inv_id r = I then mark_paid M r else r)) rows = map inv_id rows"
  by (induction rows) (simp_all add: mark_paid_def)

lemma seed_keys_fresh:
  "\<not> list_ex (\<lambda>r. find (\<lambda>x. k x = k' r) rows \<noteq> None) new \<Longrightarrow> set (map k rows) \<inter> set (map k' new) = {}"
  by (auto simp: list_ex_iff find_key_None)

lemma step_keys_distinct: "keys_distinct s \<Longrightarrow> keys_distinct (step q s)"
proof (cases q)
  case (CreateInvoice iv)
  assume "keys_distinct s"
  then show ?thesis using CreateInvoice
    by (auto simp: keys_distinct_def create_invoice_def get_invoice_def find_key_None split: option.splits)
next
  case (PayInvoice i m now)
  assume "keys_distinct s"
  then show ?thesis using PayInvoice next_payment_id_fresh [of "payment_rows s"]
    by (auto simp: keys_distinct_def pay_invoice_unfold map_inv_id_mark_paid split: option.splits)
next
  case (CreateCustomer c)
  assume "keys_distinct s"
  then show ?thesis using CreateCustomer
    by (auto simp: keys_distinct_def create_customer_def get_customer_def find_key_None split: option.splits)
next
  case (SeedIfEmpty now)
  assume k: "keys_distinct s"
  show ?thesis
  proof (cases "fst (seed_if_empty now s)")
    case (Inl e)
    then have "snd (seed_if_empty now s) = s"
      by (auto simp: seed_if_empty_def split: list.splits if_splits)
    with k SeedIfEmpty show ?thesis by simp
  next
    case (Inr a)
    show ?thesis
    proof (cases "invoice_rows s")
      case Nil
      with Inr have fresh:
        "\<not> list_ex (\<lambda>r. find (\<lambda>x. sub_id x = sub_id r) (subscription_rows s) \<noteq> None) seed_subscriptions"
        "\<not> list_ex (\<lambda>r. find (\<lambda>x. cust_id x = cust_id r) (customer_rows s) \<noteq> None) (seed_customers now)"
        by (auto simp: seed_if_empty_def get_subscription_def get_customer_def split: if_splits)
      have d: "distinct (map inv_id seed_invoices)" "distinct (map sub_id seed_subscriptions)"
        "distinct (map cust_id (seed_customers now))"
        by (simp_all add: seed_invoices_def seed_subscriptions_def seed_customers_def)
      from fresh Nil have "snd (seed_if_empty now s) =
          s\<lparr>invoice_rows := invoice_rows s @ seed_invoices,
            subscription_rows := subscription_rows s @ seed_subscriptions,
            customer_rows := customer_rows s @ seed_customers now\<rparr>"
        by (simp add: seed_if_empty_def get_subscription_def get_customer_def)
      with k d seed_keys_fresh [OF fresh(1)] seed_keys_fresh [OF fresh(2)] Nil SeedIfEmpty
      show ?thesis by (simp add: keys_distinct_def)
    next
      case (Cons x xs)
      then have "snd (seed_if_empty now s) = s" by (simp add: seed_if_empty_def)
      with k SeedIfEmpty show ?thesis by simp
    qed
  qed
qed simp_all

lemma run_keys_distinct: "keys_distinct s \<Longrightarrow> keys_distinct (run reqs s)"
  by (induction reqs arbitrary: s) (simp_all add: step_keys_distinct)

lemma reachable_keys_distinct: "keys_distinct (run reqs empty_store)"
  by (rule run_keys_distinct) (simp add: keys_distinct_def empty_store_def)


section \<open>Paying an invoice\<close>

text \<open>
  Claim C1. When the store holds an invoice under identifier \<open>I\<close>, \<open>pay_invoice\<close> on
  \<open>I\<close> and method \<open>M\<close> answers with the acknowledgment carrying \<open>I\<close>, and the store it
  leaves differs from the one it was given in exactly this: the row of \<open>I\<close> has status
  \<open>paid\<close> and method \<open>M\<close>, and the Payment table has one more row, for \<open>I\<close>, with the
  amount the invoice had and method \<open>M\<close>; customers and subscriptions are untouched. The
  session commits exactly once, and what that one commit gives the database is this store,
  with both writes in it: the database never holds one write without the other.
\<close>

theorem pay_invoice_existing:
  assumes "get_invoice s I = Some iv"
  shows "case pay_invoice I M now s of (res, s') \<Rightarrow>
           res = Inr \<lparr>ack_ok = True, ack_invoice_id = I\<rparr>
         \<and> get_invoice s' I = Some (iv\<lparr>inv_status := py ''paid'', inv_method := M\<rparr>)
         \<and> invoice_rows s' =
             map (\<lambda>r. if inv_id r = I then r\<lparr>inv_status := py ''paid'', inv_method := M\<rparr> else r)
               (invoice_rows s)
         \<and> payment_rows s' = payment_rows s @
             [\<lparr>pay_id = next_payment_id (payment_rows s), pay_invoice_id = I,
               pay_amount = inv_amount iv, pay_method = M, pay_paid_at = now\<rparr>]
         \<and> customer_rows s' = customer_rows s
         \<and> subscription_rows s' = subscription_rows s
         \<and> commits (snd (pay_invoice_session I M now (Session s))) = [s']
         \<and> database (snd (pay_invoice_session I M now (Session s))) = s'"
proof -
  obtain res s' where p: "pay_invoice I M now s = (res, s')" by (cases "pay_invoice I M now s")
  from assms have c: "commits (snd (pay_invoice_session I M now (Session s))) = [s']"
    by (simp add: pay_invoice_session_commits p)
  have d: "database (snd (pay_invoice_session I M now (Session s))) = s'"
    by (simp add: pay_invoice_session_database p)
  from assms p have
    "res = Inr \<lparr>ack_ok = True, ack_invoice_id = I\<rparr>"
    "s' = s\<lparr>invoice_rows := map (\<lambda>r. if inv_id r = I then mark_paid M r else r) (invoice_rows s),
            payment_rows := payment_rows s @
              [\<lparr>pay_id = next_payment_id (payment_rows s), pay_invoice_id = I,
                pay_amount = inv_amount iv, pay_method = M, pay_paid_at = now\<rparr>]\<rparr>"
    by (auto simp: pay_invoice_unfold)
  with assms c d show ?thesis unfolding p
    by (simp add: get_invoice_def find_mark_paid) (simp add: mark_paid_def)
qed

theorem pay_invoice_existing_witness:
  "get_invoice demo_store (py ''INV-10429'') = Some (seed_invoices ! 1)
   \<and> (case pay_invoice (py ''INV-10429'') (py ''Card'') 7 demo_store of (res, s') \<Rightarrow>
        res = Inr \<lparr>ack_ok = True, ack_invoice_id = py ''INV-10429''\<rparr>
        \<and> map inv_status (invoice_rows s') = [py ''paid'', py ''paid'', py ''sent'']
        \<and> map inv_method (invoice_rows s') = [py ''UPI'', py ''Card'', py ''NetBanking'']
        \<and> payment_rows s' =
            [\<lparr>pay_id = 1, pay_invoice_id = py ''INV-10429'', pay_amount = 125000,
              pay_method = py ''Card'', pay_paid_at = 7\<rparr>]
        \<and> commits (snd (pay_invoice_session (py ''INV-10429'') (py ''Card'') 7 (Session demo_store)))
            = [s'])"
proof -
  have h: "get_invoice demo_store (py ''INV-10429'') = Some (seed_invoices ! 1)"
    by (simp add: demo_store_def seed_invoices_def get_invoice_def)
  from h pay_invoice_existing [OF h, of "py ''Card''" 7] show ?thesis
    by (simp add: demo_store_def seed_invoices_def next_payment_id_def split: prod.splits)
qed

text \<open>
  Claim C3. When the store holds no invoice under identifier \<open>I\<close>, \<open>pay_invoice\<close> raises
  the 404 and leaves the store as it was: no Payment row, nothing else either.
\<close>

theorem pay_invoice_missing:
  assumes "\<forall>r \<in> set (invoice_rows s). inv_id r \<noteq> I"
  shows "pay_invoice I M now s = (Inl (HTTPException 404 ''Invoice not found''), s)"
proof -
  from assms have "get_invoice s I = None"
    by (simp add: get_invoice_def find_key_None)
  then show ?thesis by (simp add: pay_invoice_unfold)
qed

theorem pay_invoice_missing_witness:
  "map inv_id (invoice_rows demo_store) = [py ''INV-10428'', py ''INV-10429'', py ''INV-10430'']
   \<and> pay_invoice (py ''INV-1'') (py ''UPI'') 7 demo_store =
       (Inl (HTTPException 404 ''Invoice not found''), demo_store)"
proof -
  have ids: "map inv_id (invoice_rows demo_store) = [py ''INV-10428'', py ''INV-10429'', py ''INV-10430'']"
    by (simp add: demo_store_def seed_invoices_def)
  have h: "\<forall>r \<in> set (invoice_rows demo_store). inv_id r \<noteq> py ''INV-1''"
    by (simp add: demo_store_def seed_invoices_def)
  from ids pay_invoice_missing [OF h, of "py ''UPI''" 7] show ?thesis by simp
qed


section \<open>Creating under a key that is taken\<close>

text \<open>
  Claim C4. When the Invoice table already holds a row under the new invoice's identifier,
  \<open>create_invoice\<close> raises the 409 and leaves the store as it was, so the row that was
  there is as it was; \<open>create_customer\<close> does the same on the Customer table.
\<close>

theorem create_existing_conflict:
  "((\<exists>r \<in> set (invoice_rows s). inv_id r = inv_id iv) \<longrightarrow>
      create_invoice iv s = (Inl (HTTPException 409 ''Invoice id already exists''), s))
   \<and> ((\<exists>r \<in> set (customer_rows s). cust_id r = cust_id c) \<longrightarrow>
      create_customer c s = (Inl (HTTPException 409 ''Customer id already exists''), s))"
proof -
  have "create_invoice iv s = (Inl (HTTPException 409 ''Invoice id already exists''), s)"
    if "\<exists>r \<in> set (invoice_rows s). inv_id r = inv_id iv"
  proof -
    from that have "get_invoice s (inv_id iv) \<noteq> None"
      by (simp add: get_invoice_def find_key_None)
    then obtain old where "get_invoice s (inv_id iv) = Some old" by blast
    then show ?thesis by (simp add: create_invoice_def)
  qed
  moreover
  have "create_customer c s = (Inl (HTTPException 409 ''Customer id already exists''), s)"
    if "\<exists>r \<in> set (customer_rows s). cust_id r = cust_id c"
  proof -
    from that have "get_customer s (cust_id c) \<noteq> None"
      by (simp add: get_customer_def find_key_None)
    then obtain old where "get_customer s (cust_id c) = Some old" by blast
    then show ?thesis by (simp add: create_customer_def)
  qed
  ultimately show ?thesis by blast
qed

theorem create_existing_conflict_witness:
  "(\<exists>r \<in> set (invoice_rows demo_store). inv_id r = inv_id ((seed_invoices ! 2)\<lparr>inv_amount := 1\<rparr>))
   \<and> create_invoice ((seed_invoices ! 2)\<lparr>inv_amount := 1\<rparr>) demo_store =
       (Inl (HTTPException 409 ''Invoice id already exists''), demo_store)
   \<and> (\<exists>r \<in> set (customer_rows demo_store). cust_id r = cust_id (seed_customers 5 ! 0))
   \<and> create_customer (seed_customers 5 ! 0) demo_store =
       (Inl (HTTPException 409 ''Customer id already exists''), demo_store)"
proof -
  have h1: "\<exists>r \<in> set (invoice_rows demo_store). inv_id r = inv_id ((seed_invoices ! 2)\<lparr>inv_amount := 1\<rparr>)"
    by (simp add: demo_store_def seed_invoices_def)
  have h2: "\<exists>r \<in> set (customer_rows demo_store). cust_id r = cust_id (seed_customers 5 ! 0)"
    by (simp add: demo_store_def seed_customers_def)
  from h1 h2
    create_existing_conflict [of demo_store "(seed_invoices ! 2)\<lparr>inv_amount := 1\<rparr>" "seed_customers 5 ! 0"]
  show ?thesis by simp
qed


section \<open>Seeding\<close>

text \<open>
  Claim C5. \<open>seed_if_empty\<close> asks the Invoice table alone whether the database is empty.
  On a store that holds a customer and no invoice it writes the demo rows and reports
  \<open>seeded = True\<close>, although the store was not empty.
\<close>

theorem seed_if_empty_customer_only:
  "customer_rows customer_only_store \<noteq> []
   \<and> seed_if_empty 0 customer_only_store =
       (Inr \<lparr>seed_ok = True, seeded = True\<rparr>,
        customer_only_store\<lparr>invoice_rows := seed_invoices,
                            subscription_rows := seed_subscriptions,
                            customer_rows := customer_rows customer_only_store @ seed_customers 0\<rparr>)"
  by (simp add: seed_if_empty_def customer_only_store_def seed_subscriptions_def
        seed_customers_def get_subscription_def get_customer_def)

text \<open>On that store the seed finds no invoice, and leaves three invoices next to two more customers.\<close>

theorem seed_if_empty_customer_only_witness:
  "invoice_rows customer_only_store = []
   \<and> customer_only_store \<noteq> empty_store
   \<and> fst (seed_if_empty 0 customer_only_store) = Inr \<lparr>seed_ok = True, seeded = True\<rparr>
   \<and> length (invoice_rows (snd (seed_if_empty 0 customer_only_store))) = 3
   \<and> length (customer_rows (snd (seed_if_empty 0 customer_only_store))) = 3"
proof -
  from seed_if_empty_customer_only
  have e: "seed_if_empty 0 customer_only_store =
       (Inr \<lparr>seed_ok = True, seeded = True\<rparr>,
        customer_only_store\<lparr>invoice_rows := seed_invoices,
                            subscription_rows := seed_subscriptions,
                            customer_rows := customer_rows customer_only_store @ seed_customers 0\<rparr>)"
    by (rule conjunct2)
  have "invoice_rows customer_only_store = []" "customer_only_store \<noteq> empty_store"
    by (simp_all add: customer_only_store_def empty_store_def)
  then show ?thesis unfolding e
    by (simp add: seed_invoices_def seed_customers_def customer_only_store_def)
qed

text \<open>What does hold: a store with an invoice is left alone, so a second call seeds nothing.\<close>

lemma seed_if_empty_has_invoice:
  "invoice_rows s \<noteq> [] \<Longrightarrow> seed_if_empty now s = (Inr \<lparr>seed_ok = True, seeded = False\<rparr>, s)"
  by (cases "invoice_rows s") (simp_all add: seed_if_empty_def)

lemma seed_if_empty_twice:
  assumes "seed_if_empty now s = (Inr a, s')"
  shows "seed_if_empty now' s' = (Inr \<lparr>seed_ok = True, seeded = False\<rparr>, s')"
proof (rule seed_if_empty_has_invoice)
  from assms show "invoice_rows s' \<noteq> []"
    by (auto simp: seed_if_empty_def seed_invoices_def split: list.splits if_splits)
qed

text \<open>
  With the seeded customer key \<open>CUST-901\<close> already in the store and no invoice, the commit
  meets the key a second time and raises.
\<close>

lemma seed_if_empty_key_clash:
  "seed_if_empty 0 (customer_only_store\<lparr>customer_rows := [seed_customers 9 ! 0]\<rparr>) =
     (Inl IntegrityError, customer_only_store\<lparr>customer_rows := [seed_customers 9 ! 0]\<rparr>)"
  by (simp add: seed_if_empty_def customer_only_store_def seed_subscriptions_def
        seed_customers_def get_subscription_def get_customer_def)


section \<open>Where a paid invoice comes from\<close>

text \<open>
  Claim C6, as stated, fails: seeding the empty store leaves \<open>INV-10428\<close> with status
  \<open>paid\<close>, and the run holds no pay request at all.
\<close>

theorem paid_without_pay:
  "seed_invoices ! 0 \<in> set (invoice_rows (run [SeedIfEmpty 0] empty_store))
   \<and> inv_status (seed_invoices ! 0) = py ''paid''
   \<and> \<not> paid_by_pay [SeedIfEmpty 0] (seed_invoices ! 0)"
  by (simp add: seed_if_empty_def empty_store_def seed_invoices_def seed_subscriptions_def
        seed_customers_def get_subscription_def get_customer_def paid_by_pay_def)

lemma step_paid_origin:
  assumes "r \<in> set (invoice_rows (step q s))" "inv_status r = py ''paid''"
  shows "r \<in> set (invoice_rows s) \<or> q = CreateInvoice r
         \<or> (r \<in> set seed_invoices \<and> (\<exists>t. q = SeedIfEmpty t))
         \<or> (\<exists>t. q = PayInvoice (inv_id r) (inv_method r) t)"
  using assms
  by (cases q)
     (auto simp: create_invoice_def create_customer_def pay_invoice_unfold seed_if_empty_def
        mark_paid_def split: option.splits list.splits if_splits)

lemma run_paid_origin:
  "r \<in> set (invoice_rows (run reqs s)) \<Longrightarrow> inv_status r = py ''paid'' \<Longrightarrow>
     r \<in> set (invoice_rows s) \<or> CreateInvoice r \<in> set reqs
     \<or> (r \<in> set seed_invoices \<and> (\<exists>t. SeedIfEmpty t \<in> set reqs))
     \<or> (\<exists>t. PayInvoice (inv_id r) (inv_method r) t \<in> set reqs)"
proof (induction reqs arbitrary: s)
  case Nil
  then show ?case by simp
next
  case (Cons q qs)
  from Cons.prems have "r \<in> set (invoice_rows (run qs (step q s)))" by simp
  from Cons.IH [OF this Cons.prems(2)]
  consider "r \<in> set (invoice_rows (step q s))" | "CreateInvoice r \<in> set qs"
    | "r \<in> set seed_invoices \<and> (\<exists>t. SeedIfEmpty t \<in> set qs)"
    | "\<exists>t. PayInvoice (inv_id r) (inv_method r) t \<in> set qs" by blast
  then show ?case
  proof cases
    case 1
    from step_paid_origin [OF 1 Cons.prems(2)] show ?thesis by auto
  qed auto
qed

lemma paid_by_pay_iff:
  "paid_by_pay reqs r \<longleftrightarrow> (\<exists>t. PayInvoice (inv_id r) (inv_method r) t \<in> set reqs)"
proof (induction reqs)
  case Nil
  then show ?case by (simp add: paid_by_pay_def)
next
  case (Cons q qs)
  then show ?case by (cases q) (auto simp: paid_by_pay_def)
qed

text \<open>
  Claim C6, amended. In a store reached from the empty one by any run of requests, an
  invoice row with status \<open>paid\<close> was paid by a pay request of the run for its identifier,
  with the method it carries, or it was inserted as it stands: by a create request carrying
  this very row, or by the seed as one of the seeded rows.
\<close>

theorem paid_invoice_origin:
  assumes "r \<in> set (invoice_rows (run reqs empty_store))" "inv_status r = py ''paid''"
  shows "paid_by_pay reqs r \<or> CreateInvoice r \<in> set reqs
         \<or> (r \<in> set seed_invoices \<and> (\<exists>t. SeedIfEmpty t \<in> set reqs))"
  using run_paid_origin [OF assms] by (auto simp: empty_store_def paid_by_pay_iff)

theorem paid_invoice_origin_witness:
  "mark_paid (py ''Card'') (seed_invoices ! 2) \<in> set (invoice_rows (run demo_run empty_store))
   \<and> inv_status (mark_paid (py ''Card'') (seed_invoices ! 2)) = py ''paid''
   \<and> paid_by_pay demo_run (mark_paid (py ''Card'') (seed_invoices ! 2))"
proof -
  have h1: "mark_paid (py ''Card'') (seed_invoices ! 2) \<in> set (invoice_rows (run demo_run empty_store))"
    by (simp add: demo_run_def seed_if_empty_def empty_store_def seed_invoices_def
          seed_subscriptions_def seed_customers_def get_subscription_def get_customer_def
          pay_invoice_unfold get_invoice_def mark_paid_def)
  have h2: "inv_status (mark_paid (py ''Card'') (seed_invoices ! 2)) = py ''paid''"
    by (simp add: mark_paid_def)
  have h3: "CreateInvoice (mark_paid (py ''Card'') (seed_invoices ! 2)) \<notin> set demo_run"
    by (simp add: demo_run_def)
  have h4: "mark_paid (py ''Card'') (seed_invoices ! 2) \<notin> set seed_invoices"
    by (simp add: seed_invoices_def mark_paid_def)
  from paid_invoice_origin [OF h1 h2] h1 h2 h3 h4 show ?thesis by blast
qed


section \<open>The query filter\<close>

lemma strip_Nil: "strip [] = []"
  by (simp add: strip_def)

lemma strip_all_space:
  assumes "\<forall>c \<in> set q. isspace c"
  shows "strip q = []"
proof -
  from assms have d: "dropWhile isspace q = []" by (induction q) simp_all
  show ?thesis unfolding strip_def d by simp
qed

lemma match_blank_query: "lower [] = [] \<Longrightarrow> strip q = [] \<Longrightarrow> match lower q (v # vs)"
  by (simp add: match_def)

lemma list_invoices_filter:
  assumes "lower [] = []"
  shows "list_invoices lower (Some q) s =
     filter (\<lambda>r. sublist (lower (strip q)) (lower (inv_id r))
                \<or> sublist (lower (strip q)) (lower (inv_customer r))
                \<or> sublist (lower (strip q)) (lower (inv_status r))
                \<or> sublist (lower (strip q)) (lower (inv_method r))) (invoice_rows s)"
proof (cases "q = []")
  case True
  with assms show ?thesis by (simp add: list_invoices_def strip_Nil)
next
  case False
  then show ?thesis by (simp add: list_invoices_def match_def Let_def)
qed

lemma list_customers_filter:
  assumes "lower [] = []"
  shows "list_customers lower (Some q) s =
     filter (\<lambda>r. sublist (lower (strip q)) (lower (cust_id r))
                \<or> sublist (lower (strip q)) (lower (cust_name r))
                \<or> sublist (lower (strip q)) (lower (cust_tier r))
                \<or> sublist (lower (strip q)) (lower (cust_status r))) (customer_rows s)"
proof (cases "q = []")
  case True
  with assms show ?thesis by (simp add: list_customers_def strip_Nil)
next
  case False
  then show ?thesis by (simp add: list_customers_def match_def Let_def)
qed

lemma list_subscriptions_filter:
  assumes "lower [] = []"
  shows "list_subscriptions lower (Some q) s =
     filter (\<lambda>r. sublist (lower (strip q)) (lower (sub_id r))
                \<or> sublist (lower (strip q)) (lower (sub_plan r))
                \<or> sublist (lower (strip q)) (lower (sub_customer r))
                \<or> sublist (lower (strip q)) (lower (sub_status r))) (subscription_rows s)"
proof (cases "q = []")
  case True
  with assms show ?thesis by (simp add: list_subscriptions_def strip_Nil)
next
  case False
  then show ?thesis by (simp add: list_subscriptions_def match_def Let_def)
qed

lemma lower_latin1_Nil: "lower_latin1 [] = []"
  by (simp add: lower_latin1_def)

lemma lower_strip_apex:
  "lower_latin1 (strip (py ''apex'')) = lower_latin1 (strip (0xA0 # py ''APEX ''))"
  by (simp add: lower_latin1_def strip_def isspace_def)

text \<open>
  Claim C8, as stated, fails in its second half: the field values are lowered too before
  the comparison. The query \<open>apex\<close> selects the seeded invoice of customer
  \<open>Apex Retail Pvt Ltd\<close>, and is a substring of none of that row's four values as stored.
\<close>

theorem match_as_stored_differs:
  "list_invoices lower_latin1 (Some (py ''apex'')) demo_store = [seed_invoices ! 0]
   \<and> filter (\<lambda>r. match_as_stored lower_latin1 (py ''apex'')
                   [inv_id r, inv_customer r, inv_status r, inv_method r])
        (invoice_rows demo_store) = []"
  by (simp add: list_invoices_def match_def match_as_stored_def demo_store_def seed_invoices_def
        lower_latin1_def strip_def isspace_def sublist_code)

text \<open>
  Claim C8, amended. Whatever \<open>str.lower\<close> does to a string that is not empty: two
  queries that are equal after trimming and lowering select the same rows on each of the
  three list routes, and a row is selected if and only if the lowered, trimmed query is a
  substring of the lowered value of one of the four fields of its table: id, customer,
  status, method for invoices; id, name, tier, status for customers; id, plan, customer,
  status for subscriptions.
\<close>

theorem list_query_normalised:
  assumes "lower [] = []" and "lower (strip q1) = lower (strip q2)"
  shows "list_invoices lower (Some q1) s = list_invoices lower (Some q2) s
       \<and> list_customers lower (Some q1) s = list_customers lower (Some q2) s
       \<and> list_subscriptions lower (Some q1) s = list_subscriptions lower (Some q2) s
       \<and> list_invoices lower (Some q1) s =
           filter (\<lambda>r. sublist (lower (strip q1)) (lower (inv_id r))
                      \<or> sublist (lower (strip q1)) (lower (inv_customer r))
                      \<or> sublist (lower (strip q1)) (lower (inv_status r))
                      \<or> sublist (lower (strip q1)) (lower (inv_method r))) (invoice_rows s)
       \<and> list_customers lower (Some q1) s =
           filter (\<lambda>r. sublist (lower (strip q1)) (lower (cust_id r))
                      \<or> sublist (lower (strip q1)) (lower (cust_name r))
                      \<or> sublist (lower (strip q1)) (lower (cust_tier r))
                      \<or> sublist (lower (strip q1)) (lower (cust_status r))) (customer_rows s)
       \<and> list_subscriptions lower (Some q1) s =
           filter (\<lambda>r. sublist (lower (strip q1)) (lower (sub_id r))
                      \<or> sublist (lower (strip q1)) (lower (sub_plan r))
                      \<or> sublist (lower (strip q1)) (lower (sub_customer r))
                      \<or> sublist (lower (strip q1)) (lower (sub_status r))) (subscription_rows s)"
  unfolding list_invoices_filter [of lower, OF assms(1)]
    list_customers_filter [of lower, OF assms(1)]
    list_subscriptions_filter [of lower, OF assms(1)]
  using assms(2) by simp

text \<open>
  At the queries \<open>apex\<close> and no-break space, \<open>APEX\<close>, space; and the accented query
  \<open>U+00E9\<close>cole finds the invoice of \<open>U+00C9\<close>cole Nord.
\<close>

theorem list_query_normalised_witness:
  "lower_latin1 [] = []
   \<and> lower_latin1 (strip (py ''apex'')) = lower_latin1 (strip (0xA0 # py ''APEX ''))
   \<and> list_invoices lower_latin1 (Some (py ''apex'')) demo_store
       = list_invoices lower_latin1 (Some (0xA0 # py ''APEX '')) demo_store
   \<and> list_customers lower_latin1 (Some (py ''apex'')) demo_store
       = list_customers lower_latin1 (Some (0xA0 # py ''APEX '')) demo_store
   \<and> list_subscriptions lower_latin1 (Some (py ''apex'')) demo_store
       = list_subscriptions lower_latin1 (Some (0xA0 # py ''APEX '')) demo_store"
  using list_query_normalised [of lower_latin1, OF lower_latin1_Nil lower_strip_apex, of demo_store]
    lower_latin1_Nil lower_strip_apex
  by simp

lemma list_invoices_ecole:
  "list_invoices lower_latin1 (Some (0xE9 # py ''cole'')) ecole_store = invoice_rows ecole_store"
  by (simp add: list_invoices_def match_def ecole_store_def lower_latin1_def strip_def
        isspace_def sublist_code)

text \<open>
  Claim C10. A query that is not empty and holds only whitespace (any code point that
  \<open>str.strip\<close> removes) gets, on each list route, what an absent query gets: the whole
  table.
\<close>

theorem list_blank_query:
  assumes "lower [] = []" and "q \<noteq> []" and "\<forall>c \<in> set q. isspace c"
  shows "list_invoices lower (Some q) s = list_invoices lower None s
       \<and> list_customers lower (Some q) s = list_customers lower None s
       \<and> list_subscriptions lower (Some q) s = list_subscriptions lower None s
       \<and> list_invoices lower None s = invoice_rows s
       \<and> list_customers lower None s = customer_rows s
       \<and> list_subscriptions lower None s = subscription_rows s"
  using assms strip_all_space [of q]
  by (simp add: list_invoices_def list_customers_def list_subscriptions_def match_blank_query)

theorem list_blank_query_witness:
  "lower_latin1 [] = [] \<and> [0xA0, 0x20, 0x2003, 0x85] \<noteq> ([] :: str)
   \<and> list_all isspace [0xA0, 0x20, 0x2003, 0x85]
   \<and> list_invoices lower_latin1 (Some [0xA0, 0x20, 0x2003, 0x85]) demo_store = seed_invoices
   \<and> list_customers lower_latin1 (Some [0xA0, 0x20, 0x2003, 0x85]) demo_store = seed_customers 0
   \<and> list_subscriptions lower_latin1 (Some [0xA0, 0x20, 0x2003, 0x85]) demo_store = seed_subscriptions"
proof -
  have h1: "[0xA0, 0x20, 0x2003, 0x85] \<noteq> ([] :: str)" by simp
  have h2: "\<forall>c \<in> set [0xA0, 0x20, 0x2003, 0x85]. isspace c" by (simp add: isspace_def)
  have h3: "list_all isspace [0xA0, 0x20, 0x2003, 0x85]" by (simp add: isspace_def)
  from list_blank_query [of lower_latin1, OF lower_latin1_Nil h1 h2, of demo_store] h3
    lower_latin1_Nil
  show ?thesis
    by (simp add: demo_store_def)
qed


section \<open>The planner\<close>

lemmas sample_defs = sample_loads_def body_text_def json_string_def type_number_reply_def dq_def
  body_value_def prose_reply_def type_number_obj_def

lemmas planner_defs = plan_command_def response_content_def subscript_def subscript0_def
  plan_reply_def extract_json_def try_loads_def brace_span_def

lemmas guard_defs = guard_command_def Command_init_def str_field_def optional_str_field_def
  dict_field_def text_arg_def ACTIONS_def TARGETS_def

text \<open>
  Claim C2. The guardrails miss one case. For the object
  \<open>{"action":"type","target":"field.search","args":{"text":5}}\<close> the value under \<open>text\<close>
  is truthy and no string, so \<open>.strip()\<close> raises \<open>AttributeError\<close>: the planner neither
  accepts the candidate nor returns a fallback command.
\<close>

theorem guard_command_text_number:
  "guard_command type_number_obj = Inl AttributeError
   \<and> plan_command typing_env (py ''search five'') (py ''dashboard'') [] =
       (Inl AttributeError, [py (''Active tab: dashboard'' @ [CHR 0x0A] @ ''User: search five'')])"
  by (simp add: typing_env_def sample_defs planner_defs guard_defs)

text \<open>
  The path taken there: the coercion succeeds with action \<open>type\<close> and target
  \<open>field.search\<close>, both pass their checks, and the read of \<open>text\<close> raises.
\<close>

theorem guard_command_text_number_witness:
  "Command_init type_number_obj =
     Some \<lparr>action = py ''type'', target = Some (py ''field.search''),
           args = [(py ''text'', JInt 5)], reply = py ''ok''\<rparr>
   \<and> py ''type'' \<in> set ACTIONS \<and> py ''field.search'' \<in> set TARGETS
   \<and> text_arg [(py ''text'', JInt 5)] = Inl AttributeError
   \<and> guard_command type_number_obj = Inl AttributeError"
proof -
  from guard_command_text_number have "guard_command type_number_obj = Inl AttributeError"
    by (rule conjunct1)
  moreover have "Command_init type_number_obj =
     Some \<lparr>action = py ''type'', target = Some (py ''field.search''),
           args = [(py ''text'', JInt 5)], reply = py ''ok''\<rparr>"
    by (simp add: sample_defs guard_defs)
  moreover have "py ''type'' \<in> set ACTIONS" "py ''field.search'' \<in> set TARGETS"
    by (simp_all add: guard_defs)
  moreover have "text_arg [(py ''text'', JInt 5)] = Inl AttributeError"
    by (simp add: guard_defs)
  ultimately show ?thesis by blast
qed

text \<open>
  What the guardrails do on every object. They raise exactly when the coerced command has
  action \<open>type\<close>, a target that passed, and a truthy \<open>text\<close> that is no string; what they
  return is a fallback or a command that meets the three conditions, with \<open>text\<close> trimmed.
\<close>

lemma text_arg_raises:
  "text_arg kv = Inl err \<longleftrightarrow>
     err = AttributeError
     \<and> (\<exists>v. map_of kv (py ''text'') = Some v \<and> truthy v \<and> (\<forall>t. v \<noteq> JString t))"
  by (auto simp: text_arg_def split: option.splits json.splits)

lemma text_arg_returns:
  "text_arg kv = Inr t \<Longrightarrow> t \<noteq> [] \<Longrightarrow>
     \<exists>u. map_of kv (py ''text'') = Some (JString u) \<and> strip u = t"
  by (auto simp: text_arg_def strip_def split: option.splits json.splits if_splits)

lemma guard_command_returns:
  assumes "guard_command obj = Inr cmd"
  shows "is_fallback cmd
         \<or> (action cmd \<in> set ACTIONS
            \<and> (case target cmd of None \<Rightarrow> True | Some t \<Rightarrow> t \<in> set TARGETS)
            \<and> (action cmd = py ''type'' \<longrightarrow>
                 target cmd = Some (py ''field.search'')
                 \<and> (\<exists>c u. Command_init obj = Some c
                      \<and> map_of (args c) (py ''text'') = Some (JString u) \<and> strip u \<noteq> []
                      \<and> cmd = c\<lparr>args := AList.update (py ''text'') (JString (strip u)) (args c)\<rparr>))
            \<and> (action cmd \<noteq> py ''type'' \<longrightarrow> Command_init obj = Some cmd))"
  using assms
  by (auto simp: guard_command_def is_fallback_def fallback_def
        split: option.splits if_splits sum.splits dest!: text_arg_returns)

lemma guard_command_raises_text_arg:
  "guard_command obj = Inl err \<longleftrightarrow>
     (\<exists>c. Command_init obj = Some c \<and> action c = py ''type''
          \<and> (case target c of None \<Rightarrow> True | Some t \<Rightarrow> t \<in> set TARGETS)
          \<and> text_arg (args c) = Inl err)"
proof -
  have ty: "py ''type'' \<in> set ACTIONS" by (simp add: ACTIONS_def)
  from ty show ?thesis
    by (cases "Command_init obj")
       (auto simp: guard_command_def split: option.splits if_splits sum.splits)
qed

lemma guard_command_raises:
  "guard_command obj = Inl err \<longleftrightarrow>
     err = AttributeError
     \<and> (\<exists>c v. Command_init obj = Some c \<and> action c = py ''type''
              \<and> (case target c of None \<Rightarrow> True | Some t \<Rightarrow> t \<in> set TARGETS)
              \<and> map_of (args c) (py ''text'') = Some v \<and> truthy v \<and> (\<forall>t. v \<noteq> JString t))"
  unfolding guard_command_raises_text_arg text_arg_raises by blast

text \<open>
  Claim C7. \<open>_extract_json\<close> guards both calls of \<open>json.loads\<close> and leaves \<open>re.search\<close>
  outside the \<open>try\<close>. A response with status 200 whose body is
  \<open>{"choices":[{"message":{"content":null}}]}\<close> is a reply from which neither attempt
  yields an object, and on it \<open>plan_command\<close> raises \<open>TypeError\<close> where it should return
  the command with action \<open>none\<close>.
\<close>

theorem plan_command_null_content:
  "response_content null_env (chat_completion null_env
       (py (''Active tab: dashboard'' @ [CHR 0x0A] @ ''User: open invoices''))) = Inr JNull
   \<and> try_loads null_env JNull = None
   \<and> extract_json null_env JNull = Inl TypeError
   \<and> plan_command null_env (py ''open invoices'') (py ''dashboard'') [] =
       (Inl TypeError, [py (''Active tab: dashboard'' @ [CHR 0x0A] @ ''User: open invoices'')])"
  by (simp add: null_env_def sample_defs planner_defs)

theorem plan_command_null_content_witness:
  "OPENROUTER_API_KEY null_env \<noteq> []
   \<and> status_code (chat_completion null_env
       (py (''Active tab: dashboard'' @ [CHR 0x0A] @ ''User: open invoices''))) = 200
   \<and> fst (plan_command null_env (py ''open invoices'') (py ''dashboard'') []) = Inl TypeError"
proof -
  from plan_command_null_content
  have "plan_command null_env (py ''open invoices'') (py ''dashboard'') [] =
       (Inl TypeError, [py (''Active tab: dashboard'' @ [CHR 0x0A] @ ''User: open invoices'')])"
    by blast
  then have "fst (plan_command null_env (py ''open invoices'') (py ''dashboard'') []) = Inl TypeError"
    by simp
  moreover have "OPENROUTER_API_KEY null_env \<noteq> []"
    "status_code (chat_completion null_env
       (py (''Active tab: dashboard'' @ [CHR 0x0A] @ ''User: open invoices''))) = 200"
    by (simp_all add: null_env_def)
  ultimately show ?thesis by blast
qed

text \<open>Every content that is no string raises there, whatever \<open>json.loads\<close> is.\<close>

lemma extract_json_not_str: "(\<forall>t. x \<noteq> JString t) \<Longrightarrow> extract_json e x = Inl TypeError"
  by (cases x) (simp_all add: extract_json_def try_loads_def)

lemma plan_reply_not_str: "(\<forall>t. x \<noteq> JString t) \<Longrightarrow> plan_reply e x = Inl TypeError"
  by (simp add: plan_reply_def extract_json_not_str)

text \<open>
  What does hold: when the content is a string that \<open>json.loads\<close> turns into no object,
  neither as a whole nor on its brace span, \<open>plan_command\<close> returns the command with
  action \<open>none\<close> and the "could not understand" reply, which is not empty.
\<close>

lemma extract_json_None:
  assumes "\<forall>kv. json_loads e t \<noteq> Some (JObject kv)"
      and "\<forall>m kv. brace_span t = Some m \<longrightarrow> json_loads e m \<noteq> Some (JObject kv)"
  shows "extract_json e (JString t) = Inr None"
  using assms by (auto simp: extract_json_def try_loads_def split: option.splits json.splits)

lemma plan_command_unparseable:
  assumes "OPENROUTER_API_KEY e \<noteq> []"
      and "r = chat_completion e (py ''Active tab: '' @ active_tab @ [0x0A] @ py ''User: '' @ user_text)"
      and "status_code r < 400"
      and "response_content e r = Inr (JString t)"
      and "\<forall>kv. json_loads e t \<noteq> Some (JObject kv)"
      and "\<forall>m kv. brace_span t = Some m \<longrightarrow> json_loads e m \<noteq> Some (JObject kv)"
  shows "fst (plan_command e user_text active_tab sent) = Inr (fallback could_not_understand)
         \<and> action (fallback could_not_understand) = py ''none''
         \<and> reply (fallback could_not_understand) \<noteq> []"
proof -
  from assms(5,6) have "extract_json e (JString t) = Inr None" by (rule extract_json_None)
  then have "plan_reply e (JString t) = Inr (fallback could_not_understand)"
    by (simp add: plan_reply_def)
  with assms(1-4) have "fst (plan_command e user_text active_tab sent) = Inr (fallback could_not_understand)"
    by (simp add: plan_command_def Let_def)
  moreover have "action (fallback could_not_understand) = py ''none''"
    by (simp add: fallback_def)
  moreover have "reply (fallback could_not_understand) \<noteq> []"
    by (simp add: fallback_def could_not_understand_def)
  ultimately show ?thesis by blast
qed

lemma plan_command_prose:
  "plan_command prose_env (py ''open invoices'') (py ''dashboard'') [] =
     (Inr (fallback could_not_understand),
      [py (''Active tab: dashboard'' @ [CHR 0x0A] @ ''User: open invoices'')])"
  by (simp add: prose_env_def sample_defs planner_defs)


section \<open>The voice route\<close>

text \<open>
  Claim C9. When the transcript is empty, \<open>assistant_voice\<close> returns the empty transcript
  with the command of action \<open>none\<close>, whatever the key and the remote model are, and sends
  nothing: the log of outbound messages is the one it was given. No call of
  \<open>plan_command\<close> has that outcome, since a call that returns a command has sent a message.
\<close>

theorem assistant_voice_silence:
  assumes "transcribe_audio e file = []"
  shows "assistant_voice e file active_tab sent =
           (Inr \<lparr>transcript = [],
                 command = fallback (py ''I could not hear anything. Try again.'')\<rparr>, sent)
         \<and> action (fallback (py ''I could not hear anything. Try again.'')) = py ''none''
         \<and> (\<forall>t tab. case plan_command e t tab sent of
                        (Inl err, sent') \<Rightarrow> True
                      | (Inr cmd, sent') \<Rightarrow> sent' \<noteq> sent)"
proof -
  have "case plan_command e t tab sent of (Inl err, sent') \<Rightarrow> True | (Inr cmd, sent') \<Rightarrow> sent' \<noteq> sent"
    for t tab
    by (cases "response_content e (chat_completion e (py ''Active tab: '' @ tab @ [0x0A] @ py ''User: '' @ t))")
       (simp_all add: plan_command_def Let_def split: sum.splits)
  moreover from assms have "assistant_voice e file active_tab sent =
           (Inr \<lparr>transcript = [],
                 command = fallback (py ''I could not hear anything. Try again.'')\<rparr>, sent)"
    by (simp add: assistant_voice_def)
  moreover have "action (fallback (py ''I could not hear anything. Try again.'')) = py ''none''"
    by (simp add: fallback_def)
  ultimately show ?thesis by blast
qed

lemma silent_transcript: "transcribe_audio silent_env (py ''voice'') = []"
  by (simp add: transcribe_audio_def silent_env_def strip_def isspace_def)

theorem assistant_voice_silence_witness:
  "transcribe_audio silent_env (py ''voice'') = []
   \<and> assistant_voice silent_env (py ''voice'') (py ''dashboard'') [] =
      (Inr \<lparr>transcript = [],
            command = \<lparr>action = py ''none'', target = None, args = [],
                        reply = py ''I could not hear anything. Try again.''\<rparr>\<rparr>, [])
   \<and> fst (plan_command silent_env [] (py ''dashboard'') []) =
        Inl (HTTPException 500 ''OPENROUTER_API_KEY is not set'')"
proof -
  have "fst (plan_command silent_env [] (py ''dashboard'') []) =
        Inl (HTTPException 500 ''OPENROUTER_API_KEY is not set'')"
    by (simp add: plan_command_def silent_env_def)
  with assistant_voice_silence [OF silent_transcript, of "py ''dashboard''" "[]"] silent_transcript
  show ?thesis by (simp add: fallback_def)
qed

end
